theory Spec2Isabelle
  imports Complex_Main "HOL-Library.Word"
begin

section \<open>Metric accumulators of FastPoseCNN (lib/metrics.py)\<close>

text \<open>
  The six classes of \<^verbatim>\<open>lib/metrics.py\<close> are embedded as state-passing functions.
  The three geometric scorers live in the module \<^verbatim>\<open>gpu_tensor_funcs\<close>, which the
  metrics only call; they are parameters of the model. A scorer returns a one-dimensional
  tensor with one score per instance, modelled as a list.
\<close>

subsection \<open>Floating-point values\<close>

text \<open>
  Finite floats are modelled by real numbers, so rounding is not modelled; the special
  values that the code can produce (a mean over no elements, a division by zero) are
  kept as values of their own.
\<close>

datatype tfloat = Fin real | PInf | NInf | NaN

fun fadd :: "tfloat \<Rightarrow> tfloat \<Rightarrow> tfloat" where
  "fadd (Fin a) (Fin b) = Fin (a + b)"
| "fadd NaN y = NaN"
| "fadd x NaN = NaN"
| "fadd PInf NInf = NaN"
| "fadd NInf PInf = NaN"
| "fadd PInf y = PInf"
| "fadd x PInf = PInf"
| "fadd NInf y = NInf"
| "fadd x NInf = NInf"

text \<open>Division of a float by the constant 2 and multiplication by the constant 100.\<close>

fun fdiv2 :: "tfloat \<Rightarrow> tfloat" where
  "fdiv2 (Fin a) = Fin (a / 2)"
| "fdiv2 x = x"

fun fmul100 :: "tfloat \<Rightarrow> tfloat" where
  "fmul100 (Fin a) = Fin (a * 100)"
| "fmul100 x = x"

text \<open>Whether a float is a number, that is, neither NaN nor an infinity.\<close>

fun is_finite :: "tfloat \<Rightarrow> bool" where
  "is_finite (Fin a) = True"
| "is_finite x = False"

text \<open>Division of two finite floats: \<open>0/0\<close> is NaN, \<open>x/0\<close> is an infinity.\<close>

definition float_div :: "real \<Rightarrow> real \<Rightarrow> tfloat" where
  "float_div a b =
     (if b = 0 then (if a = 0 then NaN else if 0 < a then PInf else NInf)
      else Fin (a / b))"

text \<open>\<^verbatim>\<open>torch.mean\<close> of a one-dimensional tensor; the mean of an empty tensor is NaN.\<close>

definition torch_mean :: "real list \<Rightarrow> tfloat" where
  "torch_mean xs = (if xs = [] then NaN else Fin (sum_list xs / real (length xs)))"

subsection \<open>Errors, match records, tensors\<close>

text \<open>
  \<open>KeyError k\<close> is Python's error of a dictionary lookup of a missing key.
  \<open>EmptyScoreSet\<close> is the error that \<^verbatim>\<open>torch.cat\<close> raises on an empty list of tensors.
\<close>

datatype error = KeyError string | EmptyScoreSet

text \<open>
  A match record is a dictionary from field names to tensors. The tensor of a field
  stacks the ground truth (index 0) and the prediction (index 1) along its first axis,
  which is modelled as a pair.
\<close>

type_synonym 't match = "string \<rightharpoonup> ('t \<times> 't)"

definition torch_cat :: "real list list \<Rightarrow> error + real list" where
  "torch_cat ts = (if ts = [] then Inl EmptyScoreSet else Inr (concat ts))"

text \<open>
  \<^verbatim>\<open>torch.sum(t.int())\<close> of a boolean tensor: the number of true entries, as a 64-bit
  integer tensor.
\<close>

definition sum_int :: "bool list \<Rightarrow> 64 word" where
  "sum_int bs = of_nat (length (filter (\<lambda>b. b) bs))"

subsection \<open>Threshold accumulators\<close>

text \<open>
  The three threshold classes declare the same attributes: the threshold and the two
  integer states \<^verbatim>\<open>correct\<close> and \<^verbatim>\<open>total\<close>, both with default 0 and reduction
  \<^verbatim>\<open>sum\<close>. The counters are 64-bit signed integer tensors: their additions wrap
  around at \<open>2^63\<close>, and \<open>sint\<close> reads their value.
\<close>

record ap_state =
  threshold :: real
  correct :: "64 word"
  total_count :: "64 word"

definition ap_init :: "real \<Rightarrow> ap_state" where
  "ap_init t = \<lparr>threshold = t, correct = 0, total_count = 0\<rparr>"

text \<open>The declared reduction \<^verbatim>\<open>dist_reduce_fx='sum'\<close> of the two states of two workers.\<close>

definition ap_reduce_sum :: "ap_state \<Rightarrow> ap_state \<Rightarrow> ap_state" where
  "ap_reduce_sum s1 s2 =
     \<lparr>threshold = threshold s1,
      correct = correct s1 + correct s2,
      total_count = total_count s1 + total_count s2\<rparr>"

fun DegreeErrorMeanAP_update ::
  "('t \<Rightarrow> 't \<Rightarrow> real list) \<Rightarrow> ap_state \<Rightarrow> 't match list \<Rightarrow> ap_state" where
  "DegreeErrorMeanAP_update torch_quat_distance s [] = s"
| "DegreeErrorMeanAP_update torch_quat_distance s (m # ms) =
     (case m ''quaternion'' of
        None \<Rightarrow> DegreeErrorMeanAP_update torch_quat_distance s ms
      | Some (q0, q1) \<Rightarrow>
          (let degree_distance = torch_quat_distance q0 q1;
               thresh_degree_distance = map (\<lambda>d. d < threshold s) degree_distance
           in DegreeErrorMeanAP_update torch_quat_distance
                (s\<lparr>correct := correct s + sum_int thresh_degree_distance,
                   total_count := total_count s + of_nat (length thresh_degree_distance)\<rparr>)
                ms))"

text \<open>
  The body of \<^verbatim>\<open>compute\<close> as a function of the state it reads; \<^verbatim>\<open>.float()\<close> converts
  the signed value of a counter.
\<close>

definition DegreeErrorMeanAP_compute :: "ap_state \<Rightarrow> tfloat" where
  "DegreeErrorMeanAP_compute s =
     fmul100 (float_div (real_of_int (sint (correct s))) (real_of_int (sint (total_count s))))"

text \<open>
  In \<^verbatim>\<open>Iou3dAP.update\<close> the slot is skipped when it has no key \<^verbatim>\<open>'RT'\<close>; the lookups
  of \<^verbatim>\<open>'scales'\<close> that follow are not guarded and raise KeyError. The result of a
  failing update is the error alone: the counters that the earlier slots of the batch
  have already changed are not part of it.
\<close>

fun Iou3dAP_update ::
  "('t \<Rightarrow> 't \<Rightarrow> 't \<Rightarrow> 't \<Rightarrow> real list) \<Rightarrow> ap_state \<Rightarrow> 't match list \<Rightarrow> error + ap_state" where
  "Iou3dAP_update get_3d_ious s [] = Inr s"
| "Iou3dAP_update get_3d_ious s (m # ms) =
     (case m ''RT'' of
        None \<Rightarrow> Iou3dAP_update get_3d_ious s ms
      | Some (gt_RTs, pred_RTs) \<Rightarrow>
          (case m ''scales'' of
             None \<Rightarrow> Inl (KeyError ''scales'')
           | Some (gt_scales, pred_scales) \<Rightarrow>
               (let ious_3d = get_3d_ious gt_RTs pred_RTs gt_scales pred_scales;
                    thresh_iou_3d = map (\<lambda>x. x > threshold s) ious_3d
                in Iou3dAP_update get_3d_ious
                     (s\<lparr>correct := correct s + sum_int thresh_iou_3d,
                        total_count := total_count s + of_nat (length thresh_iou_3d)\<rparr>)
                     ms)))"

definition Iou3dAP_compute :: "ap_state \<Rightarrow> tfloat" where
  "Iou3dAP_compute s =
     fmul100 (float_div (real_of_int (sint (correct s))) (real_of_int (sint (total_count s))))"

fun OffsetAP_update ::
  "('t \<Rightarrow> 't \<Rightarrow> real list) \<Rightarrow> ap_state \<Rightarrow> 't match list \<Rightarrow> ap_state" where
  "OffsetAP_update from_RTs_get_T_offset_errors s [] = s"
| "OffsetAP_update from_RTs_get_T_offset_errors s (m # ms) =
     (case m ''RT'' of
        None \<Rightarrow> OffsetAP_update from_RTs_get_T_offset_errors s ms
      | Some (gt_RTs, pred_RTs) \<Rightarrow>
          (let offset_errors = from_RTs_get_T_offset_errors gt_RTs pred_RTs;
               thresh_offset_error = map (\<lambda>d. d < threshold s) offset_errors
           in OffsetAP_update from_RTs_get_T_offset_errors
                (s\<lparr>correct := correct s + sum_int thresh_offset_error,
                   total_count := total_count s + of_nat (length thresh_offset_error)\<rparr>)
                ms))"

definition OffsetAP_compute :: "ap_state \<Rightarrow> tfloat" where
  "OffsetAP_compute s =
     fmul100 (float_div (real_of_int (sint (correct s))) (real_of_int (sint (total_count s))))"

subsection \<open>Running-mean accumulators\<close>

text \<open>
  Each running-mean class has one state (\<^verbatim>\<open>error\<close> or \<^verbatim>\<open>accuracy\<close>) with default 0;
  the state of the model is that register.
\<close>

definition register_init :: tfloat where
  "register_init = Fin 0"

text \<open>The loop of \<^verbatim>\<open>DegreeError.update\<close>, appending to \<^verbatim>\<open>all_degree_distances\<close>.\<close>

fun DegreeError_loop ::
  "('t \<Rightarrow> 't \<Rightarrow> real list) \<Rightarrow> real list list \<Rightarrow> 't match list \<Rightarrow> real list list" where
  "DegreeError_loop torch_quat_distance all_degree_distances [] = all_degree_distances"
| "DegreeError_loop torch_quat_distance all_degree_distances (m # ms) =
     (case m ''quaternion'' of
        None \<Rightarrow> DegreeError_loop torch_quat_distance all_degree_distances ms
      | Some (q0, q1) \<Rightarrow>
          (let degree_distance = torch_quat_distance q0 q1
           in DegreeError_loop torch_quat_distance
                (all_degree_distances @ [degree_distance]) ms))"

definition DegreeError_update ::
  "('t \<Rightarrow> 't \<Rightarrow> real list) \<Rightarrow> tfloat \<Rightarrow> 't match list \<Rightarrow> error + tfloat" where
  "DegreeError_update torch_quat_distance err gt_pred_matches =
     (case torch_cat (DegreeError_loop torch_quat_distance [] gt_pred_matches) of
        Inl e \<Rightarrow> Inl e
      | Inr flat \<Rightarrow>
          (let this_round_error = torch_mean flat
           in Inr (fdiv2 (fadd err this_round_error))))"

definition DegreeError_compute :: "tfloat \<Rightarrow> tfloat" where
  "DegreeError_compute err = err"

text \<open>The loop of \<^verbatim>\<open>Iou3dAccuracy.update\<close>; the scores are multiplied by 100.\<close>

fun Iou3dAccuracy_loop ::
  "('t \<Rightarrow> 't \<Rightarrow> 't \<Rightarrow> 't \<Rightarrow> real list) \<Rightarrow> real list list \<Rightarrow> 't match list
     \<Rightarrow> error + real list list" where
  "Iou3dAccuracy_loop get_3d_ious all_ious_3d [] = Inr all_ious_3d"
| "Iou3dAccuracy_loop get_3d_ious all_ious_3d (m # ms) =
     (case m ''RT'' of
        None \<Rightarrow> Iou3dAccuracy_loop get_3d_ious all_ious_3d ms
      | Some (gt_RTs, pred_RTs) \<Rightarrow>
          (case m ''scales'' of
             None \<Rightarrow> Inl (KeyError ''scales'')
           | Some (gt_scales, pred_scales) \<Rightarrow>
               (let ious_3d =
                      map (\<lambda>x. x * 100) (get_3d_ious gt_RTs pred_RTs gt_scales pred_scales)
                in Iou3dAccuracy_loop get_3d_ious (all_ious_3d @ [ious_3d]) ms)))"

definition Iou3dAccuracy_update ::
  "('t \<Rightarrow> 't \<Rightarrow> 't \<Rightarrow> 't \<Rightarrow> real list) \<Rightarrow> tfloat \<Rightarrow> 't match list \<Rightarrow> error + tfloat" where
  "Iou3dAccuracy_update get_3d_ious accuracy gt_pred_matches =
     (case Iou3dAccuracy_loop get_3d_ious [] gt_pred_matches of
        Inl e \<Rightarrow> Inl e
      | Inr all_ious_3d \<Rightarrow>
          (case torch_cat all_ious_3d of
             Inl e \<Rightarrow> Inl e
           | Inr flat \<Rightarrow>
               (let this_round_accuracy = torch_mean flat
                in Inr (fdiv2 (fadd accuracy this_round_accuracy)))))"

definition Iou3dAccuracy_compute :: "tfloat \<Rightarrow> tfloat" where
  "Iou3dAccuracy_compute accuracy = accuracy"

text \<open>
  In \<^verbatim>\<open>OffsetError.update\<close> the mean and the blend are inside the loop over the class
  slots, and nothing is concatenated.
\<close>

fun OffsetError_update ::
  "('t \<Rightarrow> 't \<Rightarrow> real list) \<Rightarrow> tfloat \<Rightarrow> 't match list \<Rightarrow> tfloat" where
  "OffsetError_update from_RTs_get_T_offset_errors err [] = err"
| "OffsetError_update from_RTs_get_T_offset_errors err (m # ms) =
     (case m ''RT'' of
        None \<Rightarrow> OffsetError_update from_RTs_get_T_offset_errors err ms
      | Some (gt_RTs, pred_RTs) \<Rightarrow>
          (let offset_errors = from_RTs_get_T_offset_errors gt_RTs pred_RTs;
               this_round_error = torch_mean offset_errors
           in OffsetError_update from_RTs_get_T_offset_errors
                (fdiv2 (fadd err this_round_error)) ms))"

definition OffsetError_compute :: "tfloat \<Rightarrow> tfloat" where
  "OffsetError_compute err = err"

subsection \<open>Sequences of updates\<close>

text \<open>
  The training loop calls \<^verbatim>\<open>update\<close> once for every batch, on the same object. An
  exception of an update ends the run.
\<close>

fun DegreeErrorMeanAP_run ::
  "('t \<Rightarrow> 't \<Rightarrow> real list) \<Rightarrow> ap_state \<Rightarrow> 't match list list \<Rightarrow> ap_state" where
  "DegreeErrorMeanAP_run f s [] = s"
| "DegreeErrorMeanAP_run f s (b # bs) =
     DegreeErrorMeanAP_run f (DegreeErrorMeanAP_update f s b) bs"

fun OffsetAP_run ::
  "('t \<Rightarrow> 't \<Rightarrow> real list) \<Rightarrow> ap_state \<Rightarrow> 't match list list \<Rightarrow> ap_state" where
  "OffsetAP_run f s [] = s"
| "OffsetAP_run f s (b # bs) = OffsetAP_run f (OffsetAP_update f s b) bs"

fun Iou3dAP_run ::
  "('t \<Rightarrow> 't \<Rightarrow> 't \<Rightarrow> 't \<Rightarrow> real list) \<Rightarrow> ap_state \<Rightarrow> 't match list list
     \<Rightarrow> error + ap_state" where
  "Iou3dAP_run g s [] = Inr s"
| "Iou3dAP_run g s (b # bs) =
     (case Iou3dAP_update g s b of
        Inl e \<Rightarrow> Inl e
      | Inr s' \<Rightarrow> Iou3dAP_run g s' bs)"

subsection \<open>Vocabulary of the specification\<close>

text \<open>
  The per-instance score sequences of the non-skipped class slots of a batch, in batch
  order, for an accumulator that reads the field \<open>k\<close> and scores it with \<open>f\<close>.
\<close>

fun slot_scores ::
  "string \<Rightarrow> ('t \<Rightarrow> 't \<Rightarrow> real list) \<Rightarrow> 't match list \<Rightarrow> real list list" where
  "slot_scores k f [] = []"
| "slot_scores k f (m # ms) =
     (case m k of
        None \<Rightarrow> slot_scores k f ms
      | Some (a, b) \<Rightarrow> f a b # slot_scores k f ms)"

text \<open>The same for the IoU accumulators, which read the fields RT and scales.\<close>

fun iou_slot_scores ::
  "('t \<Rightarrow> 't \<Rightarrow> 't \<Rightarrow> 't \<Rightarrow> real list) \<Rightarrow> 't match list \<Rightarrow> real list list" where
  "iou_slot_scores g [] = []"
| "iou_slot_scores g (m # ms) =
     (case m ''RT'' of
        None \<Rightarrow> iou_slot_scores g ms
      | Some (a, b) \<Rightarrow>
          (case m ''scales'' of
             None \<Rightarrow> iou_slot_scores g ms
           | Some (c, d) \<Rightarrow> g a b c d # iou_slot_scores g ms))"

text \<open>A class slot that has the field RT and lacks the field scales.\<close>

definition lacks_scales :: "'t match \<Rightarrow> bool" where
  "lacks_scales m = (m ''RT'' \<noteq> None \<and> m ''scales'' = None)"

text \<open>The number of scores that pass a threshold, and the number of scores.\<close>

definition count_below :: "real \<Rightarrow> real list list \<Rightarrow> nat" where
  "count_below t xss = length (filter (\<lambda>d. d < t) (concat xss))"

definition count_above :: "real \<Rightarrow> real list list \<Rightarrow> nat" where
  "count_above t xss = length (filter (\<lambda>x. x > t) (concat xss))"

definition count_all :: "real list list \<Rightarrow> nat" where
  "count_all xss = length (concat xss)"

text \<open>The arithmetic mean of a non-empty sequence, and the blend of the running mean.\<close>

definition mean :: "real list \<Rightarrow> real" where
  "mean xs = sum_list xs / real (length xs)"

definition blend :: "tfloat \<Rightarrow> tfloat \<Rightarrow> tfloat" where
  "blend register this_round_value = fdiv2 (fadd register this_round_value)"

subsection \<open>Example scorers\<close>

text \<open>
  Tensors as lists of reals, with the distance \<open>\<bar>g - p\<bar>\<close> of each instance as the
  rotation and offset score, and the ratio of the smaller to the larger scale as the IoU.
\<close>

definition ex_distance :: "real list \<Rightarrow> real list \<Rightarrow> real list" where
  "ex_distance gt pred = map (\<lambda>(g, p). \<bar>g - p\<bar>) (zip gt pred)"

definition ex_iou :: "real list \<Rightarrow> real list \<Rightarrow> real list \<Rightarrow> real list \<Rightarrow> real list" where
  "ex_iou gt_RTs pred_RTs gt_scales pred_scales =
     map (\<lambda>(g, p). min g p / max g p) (zip gt_scales pred_scales)"

text \<open>A class slot with one rotation instance, whose distance under \<open>ex_distance\<close> is 0.\<close>

definition ex_slot :: "real list match" where
  "ex_slot = [''quaternion'' \<mapsto> ([0], [0])]"

subsection \<open>Closed forms of the loops\<close>

text \<open>
  Each loop over the class slots is characterised by the score sequences of its
  non-skipped slots. The lemmas are proved by induction on the batch, with the state
  generalised.
\<close>

lemma count_below_append: "count_below t (xs @ ys) = count_below t xs + count_below t ys"
  by (simp add: count_below_def)

lemma count_above_append: "count_above t (xs @ ys) = count_above t xs + count_above t ys"
  by (simp add: count_above_def)

lemma count_all_append: "count_all (xs @ ys) = count_all xs + count_all ys"
  by (simp add: count_all_def)

lemma DegreeErrorMeanAP_update_closed:
  "DegreeErrorMeanAP_update f s ms =
     s\<lparr>correct := correct s + of_nat (count_below (threshold s) (slot_scores ''quaternion'' f ms)),
       total_count := total_count s + of_nat (count_all (slot_scores ''quaternion'' f ms))\<rparr>"
  by (induction ms arbitrary: s)
     (auto simp: count_below_def count_all_def sum_int_def Let_def filter_map comp_def split: option.splits)

lemma OffsetAP_update_closed:
  "OffsetAP_update f s ms =
     s\<lparr>correct := correct s + of_nat (count_below (threshold s) (slot_scores ''RT'' f ms)),
       total_count := total_count s + of_nat (count_all (slot_scores ''RT'' f ms))\<rparr>"
  by (induction ms arbitrary: s)
     (auto simp: count_below_def count_all_def sum_int_def Let_def filter_map comp_def split: option.splits)

lemma Iou3dAP_update_closed:
  "Iou3dAP_update g s ms =
     (if list_ex lacks_scales ms then Inl (KeyError ''scales'')
      else Inr (s\<lparr>correct := correct s + of_nat (count_above (threshold s) (iou_slot_scores g ms)),
       total_count := total_count s + of_nat (count_all (iou_slot_scores g ms))\<rparr>))"
  by (induction ms arbitrary: s)
     (auto simp: count_above_def count_all_def sum_int_def Let_def filter_map comp_def lacks_scales_def split: option.splits)

lemma DegreeErrorMeanAP_run_closed:
  "DegreeErrorMeanAP_run f s bs =
     s\<lparr>correct := correct s + of_nat (count_below (threshold s) (concat (map (slot_scores ''quaternion'' f) bs))),
       total_count := total_count s + of_nat (count_all (concat (map (slot_scores ''quaternion'' f) bs)))\<rparr>"
  by (induction bs arbitrary: s)
     (simp_all add: DegreeErrorMeanAP_update_closed count_below_append count_all_append count_below_def[of _ "[]"] count_all_def[of "[]"])

lemma OffsetAP_run_closed:
  "OffsetAP_run f s bs =
     s\<lparr>correct := correct s + of_nat (count_below (threshold s) (concat (map (slot_scores ''RT'' f) bs))),
       total_count := total_count s + of_nat (count_all (concat (map (slot_scores ''RT'' f) bs)))\<rparr>"
  by (induction bs arbitrary: s)
     (simp_all add: OffsetAP_update_closed count_below_append count_all_append count_below_def[of _ "[]"] count_all_def[of "[]"])

lemma Iou3dAP_run_closed:
  "Iou3dAP_run g s bs =
     (if list_ex (list_ex lacks_scales) bs then Inl (KeyError ''scales'')
      else Inr (s\<lparr>correct := correct s + of_nat (count_above (threshold s) (concat (map (iou_slot_scores g) bs))),
       total_count := total_count s + of_nat (count_all (concat (map (iou_slot_scores g) bs)))\<rparr>))"
  by (induction bs arbitrary: s)
     (simp_all add: Iou3dAP_update_closed count_above_append count_all_append count_above_def[of _ "[]"] count_all_def[of "[]"])

lemma slot_scores_filter:
  "slot_scores k f (filter (\<lambda>m. m k \<noteq> None) ms) = slot_scores k f ms"
  by (induction ms) (auto split: option.splits)

lemma slot_scores_all_skipped:
  "list_all (\<lambda>m. m k = None) ms \<Longrightarrow> slot_scores k f ms = []"
  by (induction ms) auto

lemma iou_slot_scores_filter:
  "iou_slot_scores g (filter (\<lambda>m. m ''RT'' \<noteq> None) ms) = iou_slot_scores g ms"
  by (induction ms) (auto split: option.splits)

lemma lacks_scales_filter:
  "list_ex lacks_scales (filter (\<lambda>m. m ''RT'' \<noteq> None) ms) = list_ex lacks_scales ms"
  by (induction ms) (auto simp: lacks_scales_def)

lemma iou_all_skipped:
  "list_all (\<lambda>m. m ''RT'' = None) ms \<Longrightarrow> iou_slot_scores g ms = [] \<and> \<not> list_ex lacks_scales ms"
  by (induction ms) (auto simp: lacks_scales_def)

lemma DegreeError_loop_closed:
  "DegreeError_loop f acc ms = acc @ slot_scores ''quaternion'' f ms"
  by (induction ms arbitrary: acc) (auto split: option.splits)

lemma Iou3dAccuracy_loop_closed:
  "Iou3dAccuracy_loop g acc ms =
     (if list_ex lacks_scales ms then Inl (KeyError ''scales'')
      else Inr (acc @ map (map (\<lambda>x. x * 100)) (iou_slot_scores g ms)))"
  by (induction ms arbitrary: acc) (auto simp: lacks_scales_def split: option.splits)

lemma DegreeError_update_closed:
  "DegreeError_update f r ms =
     (if slot_scores ''quaternion'' f ms = [] then Inl EmptyScoreSet
      else Inr (blend r (torch_mean (concat (slot_scores ''quaternion'' f ms)))))"
  by (simp add: DegreeError_update_def DegreeError_loop_closed torch_cat_def blend_def)

lemma Iou3dAccuracy_update_closed:
  "Iou3dAccuracy_update g r ms =
     (if list_ex lacks_scales ms then Inl (KeyError ''scales'')
      else if iou_slot_scores g ms = [] then Inl EmptyScoreSet
      else Inr (blend r (torch_mean (concat (map (map (\<lambda>x. x * 100)) (iou_slot_scores g ms))))))"
  by (simp add: Iou3dAccuracy_update_def Iou3dAccuracy_loop_closed torch_cat_def blend_def)

lemma OffsetError_update_closed:
  "OffsetError_update f r ms =
     foldl (\<lambda>e xs. blend e (torch_mean xs)) r (slot_scores ''RT'' f ms)"
  by (induction ms arbitrary: r) (auto simp: blend_def split: option.splits)

lemma torch_mean_nonempty: "xs \<noteq> [] \<Longrightarrow> torch_mean xs = Fin (mean xs)"
  by (simp add: torch_mean_def mean_def)

lemma blend_Fin: "blend (Fin a) (Fin b) = Fin ((a + b) / 2)"
  by (simp add: blend_def)

lemma blend_fold_finite:
  "list_all (\<lambda>xs. xs \<noteq> []) xss \<Longrightarrow>
   foldl (\<lambda>e xs. blend e (torch_mean xs)) (Fin r) xss =
     Fin (r / 2 ^ length xss + (\<Sum>i<length xss. mean (xss ! i) / 2 ^ (length xss - i)))"
proof (induction xss rule: rev_induct)
  case Nil
  then show ?case by simp
next
  case (snoc xs xss)
  let ?k = "length xss"
  let ?S = "\<Sum>i<?k. mean (xss ! i) / 2 ^ (?k - i)"
  have ne: "xs \<noteq> []" and all: "list_all (\<lambda>xs. xs \<noteq> []) xss"
    using snoc.prems by simp_all
  have sum_eq: "(\<Sum>i<?k. mean ((xss @ [xs]) ! i) / 2 ^ (Suc ?k - i)) = ?S / 2"
  proof -
    have "(\<Sum>i<?k. mean ((xss @ [xs]) ! i) / 2 ^ (Suc ?k - i)) =
          (\<Sum>i<?k. (mean (xss ! i) / 2 ^ (?k - i)) / 2)"
      by (rule sum.cong) (simp_all add: nth_append Suc_diff_le)
    then show ?thesis by (simp add: sum_divide_distrib)
  qed
  have "foldl (\<lambda>e xs. blend e (torch_mean xs)) (Fin r) (xss @ [xs]) =
        blend (Fin (r / 2 ^ ?k + ?S)) (Fin (mean xs))"
    by (simp add: snoc.IH [OF all] torch_mean_nonempty [OF ne])
  also have "\<dots> = Fin ((r / 2 ^ ?k + ?S + mean xs) / 2)"
    by (rule blend_Fin)
  also have "(r / 2 ^ ?k + ?S + mean xs) / 2 =
             r / 2 ^ length (xss @ [xs]) +
             (\<Sum>i<length (xss @ [xs]). mean ((xss @ [xs]) ! i) / 2 ^ (length (xss @ [xs]) - i))"
    by (simp add: sum_eq add_divide_distrib)
  finally show ?case .
qed

lemma DegreeErrorMeanAP_run_append:
  "DegreeErrorMeanAP_run f s (bs @ bs') = DegreeErrorMeanAP_run f (DegreeErrorMeanAP_run f s bs) bs'"
  by (induction bs arbitrary: s) simp_all

lemma OffsetAP_run_append:
  "OffsetAP_run f s (bs @ bs') = OffsetAP_run f (OffsetAP_run f s bs) bs'"
  by (induction bs arbitrary: s) simp_all

lemma Iou3dAP_run_append:
  "Iou3dAP_run g s (bs @ bs') =
     (case Iou3dAP_run g s bs of Inl e \<Rightarrow> Inl e | Inr s1 \<Rightarrow> Iou3dAP_run g s1 bs')"
  by (induction bs arbitrary: s) (simp_all split: sum.splits)

lemma count_below_le: "count_below t xs \<le> count_all xs"
  by (simp add: count_below_def count_all_def)

lemma count_above_le: "count_above t xs \<le> count_all xs"
  by (simp add: count_above_def count_all_def)

subsection \<open>Threshold accumulators: what one update adds\<close>

text \<open>
  C3: in every threshold accumulator an update adds, for the non-skipped class slots of
  the batch, the number of scores that pass the comparison to \<^verbatim>\<open>correct\<close> and the number of
  scores to \<^verbatim>\<open>total\<close>, by the addition of the 64-bit counters. The comparison is the strict \<open>score < threshold\<close> for the
  rotation and offset variants and the strict \<open>score > threshold\<close> for the IoU variant
  (for which the update has to return, see the lookup of the scales). With threshold 5,
  a first slot without quaternion and a second slot with the angular errors
  \<open>[3, 7, 4.5]\<close>, the counters go from \<open>(0, 0)\<close> to \<open>(2, 3)\<close> and compute returns
  \<open>200/3\<close>.
\<close>

theorem threshold_update_counts:
  "DegreeErrorMeanAP_update f s ms =
     s\<lparr>correct := correct s + of_nat (count_below (threshold s) (slot_scores ''quaternion'' f ms)),
       total_count := total_count s + of_nat (count_all (slot_scores ''quaternion'' f ms))\<rparr>
   \<and> OffsetAP_update f s ms =
     s\<lparr>correct := correct s + of_nat (count_below (threshold s) (slot_scores ''RT'' f ms)),
       total_count := total_count s + of_nat (count_all (slot_scores ''RT'' f ms))\<rparr>
   \<and> (Iou3dAP_update g s ms = Inr s' \<longrightarrow>
        s' = s\<lparr>correct := correct s + of_nat (count_above (threshold s) (iou_slot_scores g ms)),
                total_count := total_count s + of_nat (count_all (iou_slot_scores g ms))\<rparr>)
   \<and> (f q0 q1 = [3, 7, 9 / 2] \<longrightarrow>
        DegreeErrorMeanAP_update f (ap_init 5) [Map.empty, [''quaternion'' \<mapsto> (q0, q1)]] =
          \<lparr>threshold = 5, correct = 2, total_count = 3\<rparr>
        \<and> (DegreeErrorMeanAP_compute
              (DegreeErrorMeanAP_update f (ap_init 5) [Map.empty, [''quaternion'' \<mapsto> (q0, q1)]])) =
          Fin (200 / 3))"
proof -
  have ex: "f q0 q1 = [3, 7, 9 / 2] \<Longrightarrow>
        DegreeErrorMeanAP_update f (ap_init 5) [Map.empty, [''quaternion'' \<mapsto> (q0, q1)]] =
          \<lparr>threshold = 5, correct = 2, total_count = 3\<rparr>"
    by (simp add: ap_init_def sum_int_def)
  have cmp: "(DegreeErrorMeanAP_compute \<lparr>threshold = 5, correct = 2, total_count = 3\<rparr>) = Fin (200 / 3)"
    by (simp add: DegreeErrorMeanAP_compute_def float_div_def)
  have iou: "Iou3dAP_update g s ms = Inr s' \<Longrightarrow>
        s' = s\<lparr>correct := correct s + of_nat (count_above (threshold s) (iou_slot_scores g ms)),
                total_count := total_count s + of_nat (count_all (iou_slot_scores g ms))\<rparr>"
    by (simp add: Iou3dAP_update_closed split: if_splits)
  show ?thesis
    using ex cmp iou
    by (simp add: DegreeErrorMeanAP_update_closed OffsetAP_update_closed)
qed

theorem threshold_update_counts_witness:
  "Iou3dAP_update ex_iou (ap_init (1 / 2))
      [Map.empty, [''RT'' \<mapsto> ([0, 0], [0, 0]), ''scales'' \<mapsto> ([1, 1], [1, 1 / 4])]] =
     Inr \<lparr>threshold = 1 / 2, correct = 1, total_count = 2\<rparr>
   \<and> ex_distance [0, 0, 0] [3, 7, 9 / 2] = [3, 7, 9 / 2]
   \<and> DegreeErrorMeanAP_update ex_distance (ap_init 5)
        [Map.empty, [''quaternion'' \<mapsto> ([0, 0, 0], [3, 7, 9 / 2])]] =
          \<lparr>threshold = 5, correct = 2, total_count = 3\<rparr>
   \<and> (DegreeErrorMeanAP_compute
          (DegreeErrorMeanAP_update ex_distance (ap_init 5)
             [Map.empty, [''quaternion'' \<mapsto> ([0, 0, 0], [3, 7, 9 / 2])]])) = Fin (200 / 3)"
proof -
  have h1: "ex_distance [0, 0, 0] [3, 7, 9 / 2] = [3, 7, 9 / 2]"
    by (simp add: ex_distance_def)
  have h2: "Iou3dAP_update ex_iou (ap_init (1 / 2))
      [Map.empty, [''RT'' \<mapsto> ([0, 0], [0, 0]), ''scales'' \<mapsto> ([1, 1], [1, 1 / 4])]] =
     Inr \<lparr>threshold = 1 / 2, correct = 1, total_count = 2\<rparr>"
    by (simp add: ex_iou_def ap_init_def sum_int_def)
  show ?thesis
    using h1 h2
      threshold_update_counts [where f = ex_distance and ?q0.0 = "[0, 0, 0]" and ?q1.0 = "[3, 7, 9 / 2]"
        and g = ex_iou and s = "ap_init (1 / 2)"
        and ms = "[Map.empty, [''RT'' \<mapsto> ([0, 0], [0, 0]), ''scales'' \<mapsto> ([1, 1], [1, 1 / 4])]]"
        and s' = "\<lparr>threshold = 1 / 2, correct = 1, total_count = 2\<rparr>"]
    by blast
qed

text \<open>
  C4: compute of a threshold accumulator returns \<open>100 * correct / total\<close> when
  \<^verbatim>\<open>total\<close> is not 0; when \<^verbatim>\<open>total\<close> is 0 the float division is by zero and the value
  is not a number (NaN from the reset state). Compute of a running-mean accumulator
  returns the register.
\<close>

theorem compute_value:
  "(total_count s \<noteq> 0 \<longrightarrow>
      DegreeErrorMeanAP_compute s = Fin (100 * real_of_int (sint (correct s)) / real_of_int (sint (total_count s)))
    \<and> Iou3dAP_compute s = Fin (100 * real_of_int (sint (correct s)) / real_of_int (sint (total_count s)))
    \<and> OffsetAP_compute s = Fin (100 * real_of_int (sint (correct s)) / real_of_int (sint (total_count s))))
   \<and> (total_count s = 0 \<longrightarrow>
      \<not> is_finite (DegreeErrorMeanAP_compute s)
    \<and> \<not> is_finite (Iou3dAP_compute s)
    \<and> \<not> is_finite (OffsetAP_compute s))
   \<and> DegreeError_compute r = r
   \<and> Iou3dAccuracy_compute r = r
   \<and> OffsetError_compute r = r"
  by (simp add: DegreeErrorMeanAP_compute_def Iou3dAP_compute_def OffsetAP_compute_def
      DegreeError_compute_def Iou3dAccuracy_compute_def OffsetError_compute_def float_div_def
      signed_eq_0_iff)

theorem compute_value_witness:
  "total_count \<lparr>threshold = 5, correct = 2, total_count = 3\<rparr> \<noteq> 0
   \<and> (DegreeErrorMeanAP_compute \<lparr>threshold = 5, correct = 2, total_count = 3\<rparr>) = Fin (200 / 3)
   \<and> (Iou3dAP_compute \<lparr>threshold = 5, correct = 2, total_count = 3\<rparr>) = Fin (200 / 3)
   \<and> (OffsetAP_compute \<lparr>threshold = 5, correct = 2, total_count = 3\<rparr>) = Fin (200 / 3)
   \<and> total_count (ap_init 5) = 0
   \<and> \<not> is_finite (DegreeErrorMeanAP_compute (ap_init 5))
   \<and> \<not> is_finite (Iou3dAP_compute (ap_init 5))
   \<and> \<not> is_finite (OffsetAP_compute (ap_init 5))"
  using compute_value [where s = "\<lparr>threshold = 5, correct = 2, total_count = 3\<rparr>"]
    compute_value [where s = "ap_init 5"]
  by (simp add: ap_init_def)

subsection \<open>Threshold accumulators: the counters over a sequence of updates\<close>

text \<open>
  The counters are 64-bit: a counter that has counted \<open>n < 2^63\<close> instances reads \<open>n\<close>,
  and the next addition after \<open>2^63 - 1\<close> wraps to \<open>- 2^63\<close>.
\<close>

lemma sint_of_nat_small:
  "n < 2 ^ 63 \<Longrightarrow> sint (of_nat n :: 64 word) = int n"
proof -
  assume n: "n < 2 ^ 63"
  have "int n < 2 ^ 63"
    using n by (metis of_nat_less_iff of_nat_numeral of_nat_power)
  then show ?thesis
    by (simp add: signed_of_nat signed_take_bit_int_eq_self)
qed

lemma sint_of_nat_wrap:
  "sint (of_nat (2 ^ 63) :: 64 word) = - (2 ^ 63)"
  by (simp add: signed_of_nat signed_take_bit_eq_take_bit_minus take_bit_eq_mod bit_iff_odd)

lemma count_all_replicate:
  "count_all (concat (replicate n xss)) = n * count_all xss"
  by (induction n) (simp_all add: count_all_def)

lemma count_below_replicate:
  "count_below t (concat (replicate n xss)) = n * count_below t xss"
  by (induction n) (simp_all add: count_below_def)

lemma ex_slot_scores: "slot_scores ''quaternion'' ex_distance [ex_slot] = [[0]]"
  by (simp add: ex_slot_def ex_distance_def)

lemma ex_run:
  "DegreeErrorMeanAP_run ex_distance (ap_init 1) (replicate n [ex_slot]) =
     \<lparr>threshold = 1, correct = of_nat n, total_count = of_nat n\<rparr>"
proof -
  have m: "map (slot_scores ''quaternion'' ex_distance) (replicate n [ex_slot]) = replicate n [[0]]"
    by (simp only: map_replicate ex_slot_scores)
  have a: "count_all (concat (replicate n [[0]])) = n"
    by (simp add: count_all_replicate) (simp add: count_all_def)
  have b: "count_below 1 (concat (replicate n [[0]])) = n"
    by (simp add: count_below_replicate) (simp add: count_below_def)
  have t: "threshold (ap_init 1) = 1" "correct (ap_init 1) = 0" "total_count (ap_init 1) = 0"
    by (simp_all add: ap_init_def)
  show ?thesis
    unfolding DegreeErrorMeanAP_run_closed m t a b
    by (simp add: ap_init_def)
qed

lemma DegreeErrorMeanAP_run_init:
  "DegreeErrorMeanAP_run f (ap_init t) bs =
     \<lparr>threshold = t,
      correct = of_nat (count_below t (concat (map (slot_scores ''quaternion'' f) bs))),
      total_count = of_nat (count_all (concat (map (slot_scores ''quaternion'' f) bs)))\<rparr>"
  by (simp add: DegreeErrorMeanAP_run_closed ap_init_def)

lemma OffsetAP_run_init:
  "OffsetAP_run f (ap_init t) bs =
     \<lparr>threshold = t,
      correct = of_nat (count_below t (concat (map (slot_scores ''RT'' f) bs))),
      total_count = of_nat (count_all (concat (map (slot_scores ''RT'' f) bs)))\<rparr>"
  by (simp add: OffsetAP_run_closed ap_init_def)

lemma Iou3dAP_run_init:
  "Iou3dAP_run g (ap_init t) bs =
     (if list_ex (list_ex lacks_scales) bs then Inl (KeyError ''scales'')
      else Inr \<lparr>threshold = t,
      correct = of_nat (count_above t (concat (map (iou_slot_scores g) bs))),
      total_count = of_nat (count_all (concat (map (iou_slot_scores g) bs)))\<rparr>)"
  by (simp add: Iou3dAP_run_closed ap_init_def)

lemma counters_in_range:
  "cb \<le> ca \<Longrightarrow> ca < 2 ^ 63 \<Longrightarrow>
     0 \<le> sint (of_nat cb :: 64 word)
     \<and> sint (of_nat cb :: 64 word) \<le> sint (of_nat ca :: 64 word)
     \<and> sint (of_nat ca :: 64 word) = int ca"
  by (simp add: sint_of_nat_small)

lemma counters_mono:
  "cb + cb' \<le> ca + ca' \<Longrightarrow> ca + ca' < 2 ^ 63 \<Longrightarrow> cb \<le> ca \<Longrightarrow>
     sint (of_nat cb :: 64 word) \<le> sint (of_nat (cb + cb') :: 64 word)
     \<and> sint (of_nat ca :: 64 word) \<le> sint (of_nat (ca + ca') :: 64 word)"
proof -
  assume h: "cb + cb' \<le> ca + ca'" "ca + ca' < 2 ^ 63" "cb \<le> ca"
  have "cb < 2 ^ 63" "cb + cb' < 2 ^ 63" "ca < 2 ^ 63"
    using h by linarith+
  then show ?thesis
    using h(2) by (simp add: sint_of_nat_small del: of_nat_add)
qed

text \<open>
  C5, as stated for every sequence of updates, fails at the wrap-around: after \<open>2^63\<close>
  updates from the reset state, each with one instance that passes the threshold,
  \<^verbatim>\<open>correct\<close> is negative, and the last of these updates decreases \<^verbatim>\<open>total\<close>.
\<close>

theorem threshold_counters_wrap:
  "sint (correct (DegreeErrorMeanAP_run ex_distance (ap_init 1) (replicate (2 ^ 63) [ex_slot]))) < 0
   \<and> sint (total_count (DegreeErrorMeanAP_run ex_distance (ap_init 1)
             (replicate (2 ^ 63 - 1) [ex_slot] @ [[ex_slot]])))
       < sint (total_count (DegreeErrorMeanAP_run ex_distance (ap_init 1)
             (replicate (2 ^ 63 - 1) [ex_slot])))"
proof -
  have n: "Suc (2 ^ 63 - 1) = (2::nat) ^ 63"
    by simp
  have "replicate (2 ^ 63 - 1) [ex_slot] @ [[ex_slot]] = replicate (Suc (2 ^ 63 - 1)) [ex_slot]"
    by (simp only: replicate_append_same replicate_Suc)
  then have r: "replicate (2 ^ 63 - 1) [ex_slot] @ [[ex_slot]] = replicate (2 ^ 63) [ex_slot]"
    by (simp only: n)
  have s: "sint (of_nat (2 ^ 63 - 1) :: 64 word) = int (2 ^ 63 - 1)"
    by (rule sint_of_nat_small) simp
  show ?thesis
    unfolding r ex_run by (simp add: sint_of_nat_wrap s del: of_nat_diff)
qed

text \<open>
  C5, amended: from the reset state, for every sequence of updates that scores fewer
  than \<open>2^63\<close> instances in all, \<open>0 \<le> correct \<le> total\<close> holds after the sequence,
  \<^verbatim>\<open>total\<close> is the number of instances of the non-skipped class slots of all the
  batches, and neither counter is smaller after the sequence than after any prefix of
  it. For the IoU variant the statements are about the runs whose updates all return.
\<close>

theorem threshold_counters_invariant:
  "(count_all (concat (map (slot_scores ''quaternion'' f) bs)) < 2 ^ 63 \<longrightarrow>
      0 \<le> sint (correct (DegreeErrorMeanAP_run f (ap_init t) bs))
      \<and> sint (correct (DegreeErrorMeanAP_run f (ap_init t) bs))
          \<le> sint (total_count (DegreeErrorMeanAP_run f (ap_init t) bs))
      \<and> sint (total_count (DegreeErrorMeanAP_run f (ap_init t) bs)) =
          int (count_all (concat (map (slot_scores ''quaternion'' f) bs))))
   \<and> (count_all (concat (map (slot_scores ''quaternion'' f) (bs @ bs'))) < 2 ^ 63 \<longrightarrow>
      sint (correct (DegreeErrorMeanAP_run f (ap_init t) bs))
          \<le> sint (correct (DegreeErrorMeanAP_run f (ap_init t) (bs @ bs')))
      \<and> sint (total_count (DegreeErrorMeanAP_run f (ap_init t) bs))
          \<le> sint (total_count (DegreeErrorMeanAP_run f (ap_init t) (bs @ bs'))))
   \<and> (count_all (concat (map (slot_scores ''RT'' f) bs)) < 2 ^ 63 \<longrightarrow>
      0 \<le> sint (correct (OffsetAP_run f (ap_init t) bs))
      \<and> sint (correct (OffsetAP_run f (ap_init t) bs))
          \<le> sint (total_count (OffsetAP_run f (ap_init t) bs))
      \<and> sint (total_count (OffsetAP_run f (ap_init t) bs)) =
          int (count_all (concat (map (slot_scores ''RT'' f) bs))))
   \<and> (count_all (concat (map (slot_scores ''RT'' f) (bs @ bs'))) < 2 ^ 63 \<longrightarrow>
      sint (correct (OffsetAP_run f (ap_init t) bs))
          \<le> sint (correct (OffsetAP_run f (ap_init t) (bs @ bs')))
      \<and> sint (total_count (OffsetAP_run f (ap_init t) bs))
          \<le> sint (total_count (OffsetAP_run f (ap_init t) (bs @ bs'))))
   \<and> (Iou3dAP_run g (ap_init t) bs = Inr s'
        \<and> count_all (concat (map (iou_slot_scores g) bs)) < 2 ^ 63 \<longrightarrow>
      0 \<le> sint (correct s') \<and> sint (correct s') \<le> sint (total_count s')
      \<and> sint (total_count s') = int (count_all (concat (map (iou_slot_scores g) bs))))
   \<and> (Iou3dAP_run g (ap_init t) (bs @ bs') = Inr s2
        \<and> count_all (concat (map (iou_slot_scores g) (bs @ bs'))) < 2 ^ 63 \<longrightarrow>
      (\<exists>s1. Iou3dAP_run g (ap_init t) bs = Inr s1
            \<and> sint (correct s1) \<le> sint (correct s2)
            \<and> sint (total_count s1) \<le> sint (total_count s2)))"
proof -
  let ?D = "concat (map (slot_scores ''quaternion'' f) bs)"
  let ?D' = "concat (map (slot_scores ''quaternion'' f) bs')"
  let ?O = "concat (map (slot_scores ''RT'' f) bs)"
  let ?O' = "concat (map (slot_scores ''RT'' f) bs')"
  let ?I = "concat (map (iou_slot_scores g) bs)"
  let ?I' = "concat (map (iou_slot_scores g) bs')"
  have d_inv: "count_all ?D < 2 ^ 63 \<longrightarrow>
      0 \<le> sint (correct (DegreeErrorMeanAP_run f (ap_init t) bs))
      \<and> sint (correct (DegreeErrorMeanAP_run f (ap_init t) bs))
          \<le> sint (total_count (DegreeErrorMeanAP_run f (ap_init t) bs))
      \<and> sint (total_count (DegreeErrorMeanAP_run f (ap_init t) bs)) = int (count_all ?D)"
  proof
    assume b: "count_all ?D < 2 ^ 63"
    from counters_in_range [OF count_below_le [of t ?D] b]
    show "0 \<le> sint (correct (DegreeErrorMeanAP_run f (ap_init t) bs))
      \<and> sint (correct (DegreeErrorMeanAP_run f (ap_init t) bs))
          \<le> sint (total_count (DegreeErrorMeanAP_run f (ap_init t) bs))
      \<and> sint (total_count (DegreeErrorMeanAP_run f (ap_init t) bs)) = int (count_all ?D)"
      by (simp add: DegreeErrorMeanAP_run_init)
  qed
  have d_mono: "count_all (concat (map (slot_scores ''quaternion'' f) (bs @ bs'))) < 2 ^ 63 \<longrightarrow>
      sint (correct (DegreeErrorMeanAP_run f (ap_init t) bs))
          \<le> sint (correct (DegreeErrorMeanAP_run f (ap_init t) (bs @ bs')))
      \<and> sint (total_count (DegreeErrorMeanAP_run f (ap_init t) bs))
          \<le> sint (total_count (DegreeErrorMeanAP_run f (ap_init t) (bs @ bs')))"
  proof
    assume "count_all (concat (map (slot_scores ''quaternion'' f) (bs @ bs'))) < 2 ^ 63"
    then have b: "count_all ?D + count_all ?D' < 2 ^ 63"
      by (simp add: count_all_append)
    from counters_mono [OF add_mono [OF count_below_le [of t ?D] count_below_le [of t ?D']] b count_below_le [of t ?D]]
    show "sint (correct (DegreeErrorMeanAP_run f (ap_init t) bs))
          \<le> sint (correct (DegreeErrorMeanAP_run f (ap_init t) (bs @ bs')))
      \<and> sint (total_count (DegreeErrorMeanAP_run f (ap_init t) bs))
          \<le> sint (total_count (DegreeErrorMeanAP_run f (ap_init t) (bs @ bs')))"
      by (simp add: DegreeErrorMeanAP_run_init count_below_append count_all_append
          del: of_nat_add)
  qed
  have o_inv: "count_all ?O < 2 ^ 63 \<longrightarrow>
      0 \<le> sint (correct (OffsetAP_run f (ap_init t) bs))
      \<and> sint (correct (OffsetAP_run f (ap_init t) bs))
          \<le> sint (total_count (OffsetAP_run f (ap_init t) bs))
      \<and> sint (total_count (OffsetAP_run f (ap_init t) bs)) = int (count_all ?O)"
  proof
    assume b: "count_all ?O < 2 ^ 63"
    from counters_in_range [OF count_below_le [of t ?O] b]
    show "0 \<le> sint (correct (OffsetAP_run f (ap_init t) bs))
      \<and> sint (correct (OffsetAP_run f (ap_init t) bs))
          \<le> sint (total_count (OffsetAP_run f (ap_init t) bs))
      \<and> sint (total_count (OffsetAP_run f (ap_init t) bs)) = int (count_all ?O)"
      by (simp add: OffsetAP_run_init)
  qed
  have o_mono: "count_all (concat (map (slot_scores ''RT'' f) (bs @ bs'))) < 2 ^ 63 \<longrightarrow>
      sint (correct (OffsetAP_run f (ap_init t) bs))
          \<le> sint (correct (OffsetAP_run f (ap_init t) (bs @ bs')))
      \<and> sint (total_count (OffsetAP_run f (ap_init t) bs))
          \<le> sint (total_count (OffsetAP_run f (ap_init t) (bs @ bs')))"
  proof
    assume "count_all (concat (map (slot_scores ''RT'' f) (bs @ bs'))) < 2 ^ 63"
    then have b: "count_all ?O + count_all ?O' < 2 ^ 63"
      by (simp add: count_all_append)
    from counters_mono [OF add_mono [OF count_below_le [of t ?O] count_below_le [of t ?O']] b count_below_le [of t ?O]]
    show "sint (correct (OffsetAP_run f (ap_init t) bs))
          \<le> sint (correct (OffsetAP_run f (ap_init t) (bs @ bs')))
      \<and> sint (total_count (OffsetAP_run f (ap_init t) bs))
          \<le> sint (total_count (OffsetAP_run f (ap_init t) (bs @ bs')))"
      by (simp add: OffsetAP_run_init count_below_append count_all_append
          del: of_nat_add)
  qed
  have i_inv: "Iou3dAP_run g (ap_init t) bs = Inr s' \<and> count_all ?I < 2 ^ 63 \<longrightarrow>
      0 \<le> sint (correct s') \<and> sint (correct s') \<le> sint (total_count s')
      \<and> sint (total_count s') = int (count_all ?I)"
  proof (intro impI, elim conjE)
    assume r: "Iou3dAP_run g (ap_init t) bs = Inr s'" and b: "count_all ?I < 2 ^ 63"
    have s': "s' = \<lparr>threshold = t, correct = of_nat (count_above t ?I),
                    total_count = of_nat (count_all ?I)\<rparr>"
      using r by (simp add: Iou3dAP_run_init split: if_splits)
    from counters_in_range [OF count_above_le [of t ?I] b]
    show "0 \<le> sint (correct s') \<and> sint (correct s') \<le> sint (total_count s')
      \<and> sint (total_count s') = int (count_all ?I)"
      by (simp add: s')
  qed
  have i_mono: "Iou3dAP_run g (ap_init t) (bs @ bs') = Inr s2
        \<and> count_all (concat (map (iou_slot_scores g) (bs @ bs'))) < 2 ^ 63 \<longrightarrow>
      (\<exists>s1. Iou3dAP_run g (ap_init t) bs = Inr s1
            \<and> sint (correct s1) \<le> sint (correct s2)
            \<and> sint (total_count s1) \<le> sint (total_count s2))"
  proof (intro impI, elim conjE)
    assume r: "Iou3dAP_run g (ap_init t) (bs @ bs') = Inr s2"
      and "count_all (concat (map (iou_slot_scores g) (bs @ bs'))) < 2 ^ 63"
    then have b: "count_all ?I + count_all ?I' < 2 ^ 63"
      by (simp add: count_all_append)
    have s2: "s2 = \<lparr>threshold = t, correct = of_nat (count_above t ?I + count_above t ?I'),
                    total_count = of_nat (count_all ?I + count_all ?I')\<rparr>"
      using r by (simp add: Iou3dAP_run_init count_above_append count_all_append
          del: of_nat_add split: if_splits)
    have r1: "Iou3dAP_run g (ap_init t) bs =
        Inr \<lparr>threshold = t, correct = of_nat (count_above t ?I),
             total_count = of_nat (count_all ?I)\<rparr>"
      using r by (simp add: Iou3dAP_run_init split: if_splits)
    from counters_mono [OF add_mono [OF count_above_le [of t ?I] count_above_le [of t ?I']] b count_above_le [of t ?I]]
    have "sint (correct \<lparr>threshold = t, correct = of_nat (count_above t ?I),
             total_count = of_nat (count_all ?I)\<rparr>) \<le> sint (correct s2)
        \<and> sint (total_count \<lparr>threshold = t, correct = of_nat (count_above t ?I),
             total_count = of_nat (count_all ?I)\<rparr>) \<le> sint (total_count s2)"
      by (simp add: s2 del: of_nat_add)
    with r1 show "\<exists>s1. Iou3dAP_run g (ap_init t) bs = Inr s1
            \<and> sint (correct s1) \<le> sint (correct s2)
            \<and> sint (total_count s1) \<le> sint (total_count s2)"
      by blast
  qed
  show ?thesis
    using d_inv d_mono o_inv o_mono i_inv i_mono by blast
qed

theorem threshold_counters_invariant_witness:
  "count_all (concat (map (slot_scores ''quaternion'' ex_distance) ([[[''quaternion'' \<mapsto> ([0], [0]), ''RT'' \<mapsto> ([0], [0]), ''scales'' \<mapsto> ([1], [1])]]] @ [[[''quaternion'' \<mapsto> ([0], [0]), ''RT'' \<mapsto> ([0], [0]), ''scales'' \<mapsto> ([1], [1])]]]))) < 2 ^ 63
   \<and> count_all (concat (map (slot_scores ''RT'' ex_distance) ([[[''quaternion'' \<mapsto> ([0], [0]), ''RT'' \<mapsto> ([0], [0]), ''scales'' \<mapsto> ([1], [1])]]] @ [[[''quaternion'' \<mapsto> ([0], [0]), ''RT'' \<mapsto> ([0], [0]), ''scales'' \<mapsto> ([1], [1])]]]))) < 2 ^ 63
   \<and> count_all (concat (map (iou_slot_scores ex_iou) ([[[''quaternion'' \<mapsto> ([0], [0]), ''RT'' \<mapsto> ([0], [0]), ''scales'' \<mapsto> ([1], [1])]]] @ [[[''quaternion'' \<mapsto> ([0], [0]), ''RT'' \<mapsto> ([0], [0]), ''scales'' \<mapsto> ([1], [1])]]]))) < 2 ^ 63
   \<and> Iou3dAP_run ex_iou (ap_init (1 / 2)) [[[''quaternion'' \<mapsto> ([0], [0]), ''RT'' \<mapsto> ([0], [0]), ''scales'' \<mapsto> ([1], [1])]]] =
        Inr \<lparr>threshold = 1 / 2, correct = 1, total_count = 1\<rparr>
   \<and> Iou3dAP_run ex_iou (ap_init (1 / 2)) ([[[''quaternion'' \<mapsto> ([0], [0]), ''RT'' \<mapsto> ([0], [0]), ''scales'' \<mapsto> ([1], [1])]]] @ [[[''quaternion'' \<mapsto> ([0], [0]), ''RT'' \<mapsto> ([0], [0]), ''scales'' \<mapsto> ([1], [1])]]]) =
        Inr \<lparr>threshold = 1 / 2, correct = 2, total_count = 2\<rparr>
   \<and> sint (correct (DegreeErrorMeanAP_run ex_distance (ap_init (1 / 2)) [[[''quaternion'' \<mapsto> ([0], [0]), ''RT'' \<mapsto> ([0], [0]), ''scales'' \<mapsto> ([1], [1])]]])) = 1
   \<and> sint (total_count (DegreeErrorMeanAP_run ex_distance (ap_init (1 / 2)) [[[''quaternion'' \<mapsto> ([0], [0]), ''RT'' \<mapsto> ([0], [0]), ''scales'' \<mapsto> ([1], [1])]]])) = 1
   \<and> sint (total_count (DegreeErrorMeanAP_run ex_distance (ap_init (1 / 2)) ([[[''quaternion'' \<mapsto> ([0], [0]), ''RT'' \<mapsto> ([0], [0]), ''scales'' \<mapsto> ([1], [1])]]] @ [[[''quaternion'' \<mapsto> ([0], [0]), ''RT'' \<mapsto> ([0], [0]), ''scales'' \<mapsto> ([1], [1])]]]))) = 2
   \<and> sint (correct (OffsetAP_run ex_distance (ap_init (1 / 2)) [[[''quaternion'' \<mapsto> ([0], [0]), ''RT'' \<mapsto> ([0], [0]), ''scales'' \<mapsto> ([1], [1])]]])) = 1
   \<and> sint (total_count (OffsetAP_run ex_distance (ap_init (1 / 2)) [[[''quaternion'' \<mapsto> ([0], [0]), ''RT'' \<mapsto> ([0], [0]), ''scales'' \<mapsto> ([1], [1])]]])) = 1
   \<and> sint (total_count (OffsetAP_run ex_distance (ap_init (1 / 2)) ([[[''quaternion'' \<mapsto> ([0], [0]), ''RT'' \<mapsto> ([0], [0]), ''scales'' \<mapsto> ([1], [1])]]] @ [[[''quaternion'' \<mapsto> ([0], [0]), ''RT'' \<mapsto> ([0], [0]), ''scales'' \<mapsto> ([1], [1])]]]))) = 2"
proof -
  have h1: "Iou3dAP_run ex_iou (ap_init (1 / 2)) [[[''quaternion'' \<mapsto> ([0], [0]), ''RT'' \<mapsto> ([0], [0]), ''scales'' \<mapsto> ([1], [1])]]] =
        Inr \<lparr>threshold = 1 / 2, correct = 1, total_count = 1\<rparr>"
    by (simp add: ex_iou_def ap_init_def sum_int_def)
  have h2: "Iou3dAP_run ex_iou (ap_init (1 / 2)) ([[[''quaternion'' \<mapsto> ([0], [0]), ''RT'' \<mapsto> ([0], [0]), ''scales'' \<mapsto> ([1], [1])]]] @ [[[''quaternion'' \<mapsto> ([0], [0]), ''RT'' \<mapsto> ([0], [0]), ''scales'' \<mapsto> ([1], [1])]]]) =
        Inr \<lparr>threshold = 1 / 2, correct = 2, total_count = 2\<rparr>"
    by (simp add: ex_iou_def ap_init_def sum_int_def)
  show ?thesis
    using h1 h2
      threshold_counters_invariant [where f = ex_distance and g = ex_iou and t = "1 / 2"
        and bs = "[[[''quaternion'' \<mapsto> ([0], [0]), ''RT'' \<mapsto> ([0], [0]), ''scales'' \<mapsto> ([1], [1])]]]" and bs' = "[[[''quaternion'' \<mapsto> ([0], [0]), ''RT'' \<mapsto> ([0], [0]), ''scales'' \<mapsto> ([1], [1])]]]"
        and s' = "\<lparr>threshold = 1 / 2, correct = 1, total_count = 1\<rparr>"
        and ?s2.0 = "\<lparr>threshold = 1 / 2, correct = 2, total_count = 2\<rparr>"]
    by (simp add: ex_distance_def ex_iou_def ap_init_def sum_int_def count_all_def)
qed

subsection \<open>Threshold accumulators: reduction over workers\<close>

text \<open>
  C6: two accumulator instances start from the reset state and process the batch
  sequences \<open>B1\<close> and \<open>B2\<close>; the field-wise sum of their states is the state of one
  instance that processes \<open>B1 @ B2\<close>, so compute returns the same value on both. For the
  IoU variant this is stated for runs whose updates all return.
\<close>

theorem threshold_reduction:
  "ap_reduce_sum (DegreeErrorMeanAP_run f (ap_init t) B1) (DegreeErrorMeanAP_run f (ap_init t) B2) =
     DegreeErrorMeanAP_run f (ap_init t) (B1 @ B2)
   \<and> (DegreeErrorMeanAP_compute
          (ap_reduce_sum (DegreeErrorMeanAP_run f (ap_init t) B1) (DegreeErrorMeanAP_run f (ap_init t) B2))) =
       (DegreeErrorMeanAP_compute (DegreeErrorMeanAP_run f (ap_init t) (B1 @ B2)))
   \<and> ap_reduce_sum (OffsetAP_run f (ap_init t) B1) (OffsetAP_run f (ap_init t) B2) =
     OffsetAP_run f (ap_init t) (B1 @ B2)
   \<and> (OffsetAP_compute
          (ap_reduce_sum (OffsetAP_run f (ap_init t) B1) (OffsetAP_run f (ap_init t) B2))) =
       (OffsetAP_compute (OffsetAP_run f (ap_init t) (B1 @ B2)))
   \<and> (Iou3dAP_run g (ap_init t) B1 = Inr s1 \<and> Iou3dAP_run g (ap_init t) B2 = Inr s2 \<longrightarrow>
        (\<exists>s. Iou3dAP_run g (ap_init t) (B1 @ B2) = Inr s
             \<and> s = ap_reduce_sum s1 s2
             \<and> (Iou3dAP_compute (ap_reduce_sum s1 s2)) = (Iou3dAP_compute s)))"
proof -
  have d: "ap_reduce_sum (DegreeErrorMeanAP_run f (ap_init t) B1) (DegreeErrorMeanAP_run f (ap_init t) B2) =
     DegreeErrorMeanAP_run f (ap_init t) (B1 @ B2)"
    by (simp add: DegreeErrorMeanAP_run_closed ap_reduce_sum_def ap_init_def
        count_below_append count_all_append)
  have o: "ap_reduce_sum (OffsetAP_run f (ap_init t) B1) (OffsetAP_run f (ap_init t) B2) =
     OffsetAP_run f (ap_init t) (B1 @ B2)"
    by (simp add: OffsetAP_run_closed ap_reduce_sum_def ap_init_def
        count_below_append count_all_append)
  have i: "Iou3dAP_run g (ap_init t) B1 = Inr s1 \<and> Iou3dAP_run g (ap_init t) B2 = Inr s2 \<longrightarrow>
        Iou3dAP_run g (ap_init t) (B1 @ B2) = Inr (ap_reduce_sum s1 s2)"
    by (auto simp: Iou3dAP_run_closed ap_reduce_sum_def ap_init_def
        count_above_append count_all_append split: if_splits)
  show ?thesis
    using i by (simp add: d o)
qed

theorem threshold_reduction_witness:
  "Iou3dAP_run ex_iou (ap_init (1 / 2))
      [[Map.empty, [''RT'' \<mapsto> ([0, 0], [0, 0]), ''scales'' \<mapsto> ([1, 1], [1, 1 / 4])]]] =
     Inr \<lparr>threshold = 1 / 2, correct = 1, total_count = 2\<rparr>
   \<and> Iou3dAP_run ex_iou (ap_init (1 / 2))
      [[[''RT'' \<mapsto> ([0], [0]), ''scales'' \<mapsto> ([1], [1])]]] =
     Inr \<lparr>threshold = 1 / 2, correct = 1, total_count = 1\<rparr>
   \<and> Iou3dAP_run ex_iou (ap_init (1 / 2))
      ([[Map.empty, [''RT'' \<mapsto> ([0, 0], [0, 0]), ''scales'' \<mapsto> ([1, 1], [1, 1 / 4])]]]
       @ [[[''RT'' \<mapsto> ([0], [0]), ''scales'' \<mapsto> ([1], [1])]]]) =
     Inr \<lparr>threshold = 1 / 2, correct = 2, total_count = 3\<rparr>
   \<and> (Iou3dAP_compute (ap_reduce_sum \<lparr>threshold = 1 / 2, correct = 1, total_count = 2\<rparr>
                                           \<lparr>threshold = 1 / 2, correct = 1, total_count = 1\<rparr>)) =
       (Iou3dAP_compute \<lparr>threshold = 1 / 2, correct = 2, total_count = 3\<rparr>)"
proof -
  have h1: "Iou3dAP_run ex_iou (ap_init (1 / 2))
      [[Map.empty, [''RT'' \<mapsto> ([0, 0], [0, 0]), ''scales'' \<mapsto> ([1, 1], [1, 1 / 4])]]] =
     Inr \<lparr>threshold = 1 / 2, correct = 1, total_count = 2\<rparr>"
    by (simp add: ex_iou_def ap_init_def sum_int_def)
  have h2: "Iou3dAP_run ex_iou (ap_init (1 / 2))
      [[[''RT'' \<mapsto> ([0], [0]), ''scales'' \<mapsto> ([1], [1])]]] =
     Inr \<lparr>threshold = 1 / 2, correct = 1, total_count = 1\<rparr>"
    by (simp add: ex_iou_def ap_init_def sum_int_def)
  show ?thesis
    using h1 h2 threshold_reduction [where g = ex_iou and t = "1 / 2"
        and ?B1.0 = "[[Map.empty, [''RT'' \<mapsto> ([0, 0], [0, 0]), ''scales'' \<mapsto> ([1, 1], [1, 1 / 4])]]]"
        and ?B2.0 = "[[[''RT'' \<mapsto> ([0], [0]), ''scales'' \<mapsto> ([1], [1])]]]"
        and ?s1.0 = "\<lparr>threshold = 1 / 2, correct = 1, total_count = 2\<rparr>"
        and ?s2.0 = "\<lparr>threshold = 1 / 2, correct = 1, total_count = 1\<rparr>"]
    by (simp add: ap_reduce_sum_def)
qed

subsection \<open>Threshold accumulators: skipped class slots\<close>

text \<open>
  C7: a class slot without the field that the update tests (the quaternion for the
  rotation variant, RT for the IoU and offset variants) has no effect on the state:
  removing such slots from the batch does not change the result, and a batch with only
  such slots leaves the state as it is. A batch whose slot 0 lacks the field and whose
  slot 1 has one instance that passes the threshold adds 1 to both counters.
\<close>

theorem threshold_skip:
  "DegreeErrorMeanAP_update f s ms =
     DegreeErrorMeanAP_update f s (filter (\<lambda>m. m ''quaternion'' \<noteq> None) ms)
   \<and> OffsetAP_update f s ms = OffsetAP_update f s (filter (\<lambda>m. m ''RT'' \<noteq> None) ms)
   \<and> Iou3dAP_update g s ms = Iou3dAP_update g s (filter (\<lambda>m. m ''RT'' \<noteq> None) ms)
   \<and> (list_all (\<lambda>m. m ''quaternion'' = None) ms \<longrightarrow> DegreeErrorMeanAP_update f s ms = s)
   \<and> (list_all (\<lambda>m. m ''RT'' = None) ms \<longrightarrow>
        OffsetAP_update f s ms = s \<and> Iou3dAP_update g s ms = Inr s)
   \<and> (m0 ''quaternion'' = None \<and> m1 ''quaternion'' = Some (a, b) \<and> f a b = [x] \<and> x < threshold s \<longrightarrow>
        DegreeErrorMeanAP_update f s [m0, m1] =
          s\<lparr>correct := correct s + 1, total_count := total_count s + 1\<rparr>)
   \<and> (m0 ''RT'' = None \<and> m1 ''RT'' = Some (a, b) \<and> f a b = [x] \<and> x < threshold s \<longrightarrow>
        OffsetAP_update f s [m0, m1] =
          s\<lparr>correct := correct s + 1, total_count := total_count s + 1\<rparr>)
   \<and> (m0 ''RT'' = None \<and> m1 ''RT'' = Some (a, b) \<and> m1 ''scales'' = Some (c, d)
        \<and> g a b c d = [x] \<and> x > threshold s \<longrightarrow>
        Iou3dAP_update g s [m0, m1] =
          Inr (s\<lparr>correct := correct s + 1, total_count := total_count s + 1\<rparr>))"
proof -
  have f1: "DegreeErrorMeanAP_update f s ms =
     DegreeErrorMeanAP_update f s (filter (\<lambda>m. m ''quaternion'' \<noteq> None) ms)"
    by (simp only: DegreeErrorMeanAP_update_closed slot_scores_filter)
  have f2: "OffsetAP_update f s ms = OffsetAP_update f s (filter (\<lambda>m. m ''RT'' \<noteq> None) ms)"
    by (simp only: OffsetAP_update_closed slot_scores_filter)
  have f3: "Iou3dAP_update g s ms = Iou3dAP_update g s (filter (\<lambda>m. m ''RT'' \<noteq> None) ms)"
    by (simp only: Iou3dAP_update_closed iou_slot_scores_filter lacks_scales_filter)
  have a1: "list_all (\<lambda>m. m ''quaternion'' = None) ms \<longrightarrow> DegreeErrorMeanAP_update f s ms = s"
    by (simp add: DegreeErrorMeanAP_update_closed slot_scores_all_skipped count_below_def count_all_def)
  have a2: "list_all (\<lambda>m. m ''RT'' = None) ms \<longrightarrow>
        OffsetAP_update f s ms = s \<and> Iou3dAP_update g s ms = Inr s"
    by (simp add: OffsetAP_update_closed Iou3dAP_update_closed slot_scores_all_skipped
        iou_all_skipped count_below_def count_above_def count_all_def)
  have e1: "m0 ''quaternion'' = None \<and> m1 ''quaternion'' = Some (a, b) \<and> f a b = [x] \<and> x < threshold s \<longrightarrow>
        DegreeErrorMeanAP_update f s [m0, m1] =
          s\<lparr>correct := correct s + 1, total_count := total_count s + 1\<rparr>"
    by (simp add: sum_int_def)
  have e2: "m0 ''RT'' = None \<and> m1 ''RT'' = Some (a, b) \<and> f a b = [x] \<and> x < threshold s \<longrightarrow>
        OffsetAP_update f s [m0, m1] =
          s\<lparr>correct := correct s + 1, total_count := total_count s + 1\<rparr>"
    by (simp add: sum_int_def)
  have e3: "m0 ''RT'' = None \<and> m1 ''RT'' = Some (a, b) \<and> m1 ''scales'' = Some (c, d)
        \<and> g a b c d = [x] \<and> x > threshold s \<longrightarrow>
        Iou3dAP_update g s [m0, m1] =
          Inr (s\<lparr>correct := correct s + 1, total_count := total_count s + 1\<rparr>)"
    by (simp add: sum_int_def)
  show ?thesis
    using f1 f2 f3 a1 a2 e1 e2 e3 by blast
qed

theorem threshold_skip_witness:
  "DegreeErrorMeanAP_update ex_distance (ap_init 5) [Map.empty, Map.empty] = ap_init 5
   \<and> OffsetAP_update ex_distance (ap_init 5) [Map.empty, Map.empty] = ap_init 5
   \<and> Iou3dAP_update ex_iou (ap_init (1 / 2)) [Map.empty, Map.empty] = Inr (ap_init (1 / 2))
   \<and> ex_distance [0] [3] = [3] \<and> (3::real) < threshold (ap_init 5)
   \<and> DegreeErrorMeanAP_update ex_distance (ap_init 5)
        [Map.empty, [''quaternion'' \<mapsto> ([0], [3])]] =
        \<lparr>threshold = 5, correct = 1, total_count = 1\<rparr>
   \<and> OffsetAP_update ex_distance (ap_init 5) [Map.empty, [''RT'' \<mapsto> ([0], [3])]] =
        \<lparr>threshold = 5, correct = 1, total_count = 1\<rparr>
   \<and> ex_iou [0] [0] [1] [1] = [1] \<and> (1::real) > threshold (ap_init (1 / 2))
   \<and> Iou3dAP_update ex_iou (ap_init (1 / 2))
        [Map.empty, [''RT'' \<mapsto> ([0], [0]), ''scales'' \<mapsto> ([1], [1])]] =
        Inr \<lparr>threshold = 1 / 2, correct = 1, total_count = 1\<rparr>"
proof -
  have x1: "ex_distance [0] [3] = [3]"
    by (simp add: ex_distance_def)
  have x2: "ex_iou [0] [0] [1] [1] = [1]"
    by (simp add: ex_iou_def)
  show ?thesis
    using x1 x2
      threshold_skip [where f = ex_distance and g = ex_iou and s = "ap_init 5"
        and ms = "[Map.empty, Map.empty]" and ?m0.0 = Map.empty
        and ?m1.0 = "[''quaternion'' \<mapsto> ([0], [3])]" and a = "[0]" and b = "[3]" and x = 3]
      threshold_skip [where f = ex_distance and g = ex_iou and s = "ap_init 5"
        and ms = "[Map.empty, Map.empty]" and ?m0.0 = Map.empty
        and ?m1.0 = "[''RT'' \<mapsto> ([0], [3])]" and a = "[0]" and b = "[3]" and x = 3]
      threshold_skip [where f = ex_distance and g = ex_iou and s = "ap_init (1 / 2)"
        and ms = "[Map.empty, Map.empty]" and ?m0.0 = Map.empty
        and ?m1.0 = "[''RT'' \<mapsto> ([0], [0]), ''scales'' \<mapsto> ([1], [1])]"
        and a = "[0]" and b = "[0]" and c = "[1]" and d = "[1]" and x = 1]
    by (simp add: ap_init_def)
qed

subsection \<open>Running-mean accumulators\<close>

text \<open>
  C9: \<^verbatim>\<open>OffsetError.update\<close> blends once for every non-skipped class slot, in batch
  order, with the mean of that slot alone. With the register \<open>x\<close> before the call and
  the means \<open>m\<^sub>0, \<dots>, m\<^sub>k\<^sub>-\<^sub>1\<close> of the \<open>k\<close> non-skipped slots (each with at least one
  instance), the register after the call is \<open>x / 2^k + (\<Sum>i<k. m\<^sub>i / 2^(k - i))\<close>. When every
  slot is skipped the register is returned as it is; the update has no failing branch.
\<close>

theorem OffsetError_update_per_slot:
  "OffsetError_update f r ms =
     foldl (\<lambda>e xs. blend e (torch_mean xs)) r (slot_scores ''RT'' f ms)
   \<and> (list_all (\<lambda>xs. xs \<noteq> []) (slot_scores ''RT'' f ms) \<longrightarrow>
        OffsetError_update f (Fin x) ms =
          Fin (x / 2 ^ length (slot_scores ''RT'' f ms)
               + (\<Sum>i<length (slot_scores ''RT'' f ms).
                    mean (slot_scores ''RT'' f ms ! i) / 2 ^ (length (slot_scores ''RT'' f ms) - i))))
   \<and> (list_all (\<lambda>m. m ''RT'' = None) ms \<longrightarrow> OffsetError_update f r ms = r)"
proof -
  have a: "OffsetError_update f r ms =
     foldl (\<lambda>e xs. blend e (torch_mean xs)) r (slot_scores ''RT'' f ms)"
    by (rule OffsetError_update_closed)
  have b: "list_all (\<lambda>xs. xs \<noteq> []) (slot_scores ''RT'' f ms) \<longrightarrow>
        OffsetError_update f (Fin x) ms =
          Fin (x / 2 ^ length (slot_scores ''RT'' f ms)
               + (\<Sum>i<length (slot_scores ''RT'' f ms).
                    mean (slot_scores ''RT'' f ms ! i) / 2 ^ (length (slot_scores ''RT'' f ms) - i)))"
    using blend_fold_finite [of "slot_scores ''RT'' f ms" x]
    by (simp only: OffsetError_update_closed) blast
  have c: "list_all (\<lambda>m. m ''RT'' = None) ms \<longrightarrow> OffsetError_update f r ms = r"
    by (simp add: OffsetError_update_closed slot_scores_all_skipped)
  show ?thesis
    using a b c by blast
qed

theorem OffsetError_update_per_slot_witness:
  "list_all (\<lambda>xs. xs \<noteq> [])
      (slot_scores ''RT'' ex_distance
         [[''RT'' \<mapsto> ([0], [2])], Map.empty, [''RT'' \<mapsto> ([0, 0], [4, 8])]])
   \<and> OffsetError_update ex_distance (Fin 1)
        [[''RT'' \<mapsto> ([0], [2])], Map.empty, [''RT'' \<mapsto> ([0, 0], [4, 8])]] = Fin (15 / 4)
   \<and> OffsetError_update ex_distance NaN [Map.empty, Map.empty] = NaN"
  using OffsetError_update_per_slot [where f = ex_distance and x = 1 and r = "Fin 1"
      and ms = "[[''RT'' \<mapsto> ([0], [2])], Map.empty, [''RT'' \<mapsto> ([0, 0], [4, 8])]]"]
    OffsetError_update_per_slot [where f = ex_distance and x = 1 and r = NaN
      and ms = "[Map.empty, Map.empty]"]
  by (simp add: ex_distance_def blend_def torch_mean_def mean_def)

text \<open>
  C1: a running-mean update concatenates the score sequences of the non-skipped slots,
  takes the mean of the flat sequence and blends once. \<^verbatim>\<open>DegreeError.update\<close> and
  \<^verbatim>\<open>Iou3dAccuracy.update\<close> do so (lemmas \<open>DegreeError_update_closed\<close> and
  \<open>Iou3dAccuracy_update_closed\<close>). \<^verbatim>\<open>OffsetError.update\<close> does not: on a first update
  with two slots whose offsets are \<open>[2]\<close> and \<open>[6]\<close> the register becomes \<open>7/2\<close>,
  where one blend with the mean 4 of the flat sequence gives 2, which is what
  \<^verbatim>\<open>DegreeError.update\<close> returns on the same scores.
\<close>

theorem OffsetError_update_not_batch_blend:
  "OffsetError_update ex_distance register_init
     [[''RT'' \<mapsto> ([0], [2])], [''RT'' \<mapsto> ([0], [6])]] = Fin (7 / 2)
   \<and> blend register_init
        (torch_mean (concat (slot_scores ''RT'' ex_distance
           [[''RT'' \<mapsto> ([0], [2])], [''RT'' \<mapsto> ([0], [6])]]))) = Fin 2
   \<and> DegreeError_update ex_distance register_init
        [[''quaternion'' \<mapsto> ([0], [2])], [''quaternion'' \<mapsto> ([0], [6])]] = Inr (Fin 2)"
  by (simp add: register_init_def ex_distance_def blend_def torch_mean_def
      DegreeError_update_def torch_cat_def)

text \<open>
  C2: a running-mean update on a batch whose slots are all skipped fails.
  \<^verbatim>\<open>DegreeError.update\<close> and \<^verbatim>\<open>Iou3dAccuracy.update\<close> fail at the concatenation of
  an empty list; \<^verbatim>\<open>OffsetError.update\<close> returns with the register unchanged, also on
  the empty batch.
\<close>

theorem OffsetError_update_all_skipped_returns:
  "DegreeError_update ex_distance (Fin 3) [Map.empty, Map.empty] = Inl EmptyScoreSet
   \<and> Iou3dAccuracy_update ex_iou (Fin 3) [Map.empty, Map.empty] = Inl EmptyScoreSet
   \<and> DegreeError_update ex_distance (Fin 3) [] = Inl EmptyScoreSet
   \<and> Iou3dAccuracy_update ex_iou (Fin 3) [] = Inl EmptyScoreSet
   \<and> OffsetError_update ex_distance (Fin 3) [Map.empty, Map.empty] = Fin 3
   \<and> OffsetError_update ex_distance (Fin 3) [] = Fin 3"
  by (simp add: DegreeError_update_def Iou3dAccuracy_update_def torch_cat_def)

subsection \<open>IoU accumulators: the lookup of the scales\<close>

text \<open>
  C10: \<^verbatim>\<open>Iou3dAP.update\<close> and \<^verbatim>\<open>Iou3dAccuracy.update\<close> skip a class slot exactly when
  it has no key RT, whatever its other keys. A batch with a slot that has RT and has no
  scales makes the update fail with the KeyError of the lookup of the scales.
\<close>

theorem iou_missing_scales:
  "(list_ex lacks_scales ms \<longrightarrow>
      Iou3dAP_update g s ms = Inl (KeyError ''scales'')
      \<and> Iou3dAccuracy_update g r ms = Inl (KeyError ''scales''))
   \<and> (m ''RT'' = None \<longrightarrow>
      Iou3dAP_update g s (m # ms) = Iou3dAP_update g s ms
      \<and> Iou3dAccuracy_update g r (m # ms) = Iou3dAccuracy_update g r ms)"
  by (simp add: Iou3dAP_update_closed Iou3dAccuracy_update_closed lacks_scales_def)

theorem iou_missing_scales_witness:
  "list_ex lacks_scales [Map.empty, [''RT'' \<mapsto> ([0::real], [0])]]
   \<and> Iou3dAP_update ex_iou (ap_init (1 / 2)) [Map.empty, [''RT'' \<mapsto> ([0], [0])]] =
       Inl (KeyError ''scales'')
   \<and> Iou3dAccuracy_update ex_iou register_init [Map.empty, [''RT'' \<mapsto> ([0], [0])]] =
       Inl (KeyError ''scales'')
   \<and> Iou3dAP_update ex_iou (ap_init (1 / 2)) [[''scales'' \<mapsto> ([1], [1])]] = Inr (ap_init (1 / 2))
   \<and> Iou3dAccuracy_update ex_iou register_init [[''scales'' \<mapsto> ([1], [1])]] = Inl EmptyScoreSet"
proof -
  have h: "list_ex lacks_scales [Map.empty, [''RT'' \<mapsto> ([0::real], [0])]]"
    by (simp add: lacks_scales_def)
  have e1: "Iou3dAP_update ex_iou (ap_init (1 / 2)) [] = Inr (ap_init (1 / 2))"
    by simp
  have e2: "Iou3dAccuracy_update ex_iou register_init [] = Inl EmptyScoreSet"
    by (simp add: Iou3dAccuracy_update_def torch_cat_def)
  show ?thesis
    using h e1 e2
      iou_missing_scales [where g = ex_iou and s = "ap_init (1 / 2)" and r = register_init
        and ms = "[Map.empty, [''RT'' \<mapsto> ([0], [0])]]"]
      iou_missing_scales [where g = ex_iou and s = "ap_init (1 / 2)" and r = register_init
        and ms = "[]" and m = "[''scales'' \<mapsto> ([1], [1])]"]
    by simp
qed

end
